theory Spec2Isabelle
  imports Complex_Main "HOL-Library.AList"
begin

section \<open>Python values shared by the modules\<close>

text \<open>
  Exceptions raised by the modelled code are values of one datatype; a function that can
  raise returns \<open>py_error + 'a\<close>, with \<open>Inl\<close> for the exception.
\<close>

datatype py_error =
    ValueError string
  | ValidationError string
  | KeyError string
  | UnboundLocalError string
  | TypeError string
  | OverflowError string
  | AttributeError string
  | HttpxError string
  | A2AClientHTTPError int string
  | A2AClientJSONError string

text \<open>
  A value of type \<open>Any\<close>: what \<open>json.loads\<close> produces and what a
  \<open>dict[str, Any]\<close> holds. \<open>PNone\<close> is Python's \<open>None\<close>. A dict is an
  association list in insertion order; JSON numbers are modelled as integers.
\<close>

datatype pyval =
    PNone
  | PBool bool
  | PInt int
  | PStr string
  | PList "pyval list"
  | PDict "(string \<times> pyval) list"

type_synonym pydict = "(string \<times> pyval) list"

text \<open>
  Truthiness of a value of type \<open>str | None\<close>: Python's \<open>if x\<close> is false for
  \<open>None\<close> and for the empty string.
\<close>

definition truthy_str :: "string option \<Rightarrow> bool" where
  "truthy_str s = (case s of None \<Rightarrow> False | Some t \<Rightarrow> t \<noteq> [])"

definition succeeds :: "'e + 'a \<Rightarrow> bool" where
  "succeeds r = (case r of Inl _ \<Rightarrow> False | Inr _ \<Rightarrow> True)"

section \<open>common/server/utils.py\<close>

text \<open>
  \<open>are_modalities_compatible(server_output_modes, client_output_modes)\<close>: each argument is
  a list of strings or \<open>None\<close>. The client list is tested first, as in the source.
\<close>

definition are_modalities_compatible :: "string list option \<Rightarrow> string list option \<Rightarrow> bool" where
  "are_modalities_compatible server_output_modes client_output_modes =
     (case client_output_modes of
        None \<Rightarrow> True
      | Some c \<Rightarrow>
          if length c = 0 then True
          else (case server_output_modes of
                  None \<Rightarrow> True
                | Some s \<Rightarrow>
                    if length s = 0 then True
                    else list_ex (\<lambda>x. x \<in> set s) c))"

section \<open>common/types.py: FileContent\<close>

record FileContent =
  fc_name :: "string option"
  fc_mimeType :: "string option"
  fc_bytes :: "string option"
  fc_uri :: "string option"

text \<open>
  The \<open>model_validator(mode='after')\<close> of \<open>FileContent\<close>: both tests are truthiness
  tests, in the order of the source.
\<close>

definition check_content :: "FileContent \<Rightarrow> py_error + FileContent" where
  "check_content self =
     (if \<not> (truthy_str (fc_bytes self) \<or> truthy_str (fc_uri self))
        then Inl (ValueError ''Either bytes or uri must be provided'')
      else if truthy_str (fc_bytes self) \<and> truthy_str (fc_uri self)
        then Inl (ValueError ''Only one of bytes or uri must be provided'')
      else Inr self)"

text \<open>
  Constructing a \<open>FileContent\<close> from its four fields (each defaults to \<open>None\<close>): the
  fields are stored and the validator runs on the result. The library turns a
  \<open>ValueError\<close> raised by a validator into its \<open>ValidationError\<close>.
\<close>

definition FileContent_new ::
  "string option \<Rightarrow> string option \<Rightarrow> string option \<Rightarrow> string option \<Rightarrow> py_error + FileContent" where
  "FileContent_new n m b u =
     (case check_content \<lparr>fc_name = n, fc_mimeType = m, fc_bytes = b, fc_uri = u\<rparr> of
        Inl (ValueError msg) \<Rightarrow> Inl (ValidationError msg)
      | r \<Rightarrow> r)"

section \<open>common/utils/in_memory_cache.py\<close>

subsection \<open>The float arithmetic of the expiry\<close>

text \<open>
  \<open>time.time()\<close> returns a float (an IEEE 754 binary64 number) and
  \<open>time.time() + ttl\<close> is a float addition: the integer \<open>ttl\<close> is converted to a
  float and the sum is rounded to the nearest float, ties to even. A finite float is
  modelled by the real number it denotes.

  \<open>round_double x\<close> is the nearest binary64 number to \<open>x\<close>, without the bound on the
  exponent from above: the unit in the last place is \<open>2 ^ (e - 52)\<close> for the exponent
  \<open>e\<close> of \<open>x\<close>, which is at least \<open>- 1022\<close>.
\<close>

definition round_half_even :: "real \<Rightarrow> int" where
  "round_half_even q =
     (let f = \<lfloor>q\<rfloor>
      in if q - of_int f < 1/2 then f
         else if q - of_int f > 1/2 then f + 1
         else if even f then f else f + 1)"

definition round_double :: "real \<Rightarrow> real" where
  "round_double x =
     (if x = 0 then 0
      else (let e = max \<lfloor>log 2 \<bar>x\<bar>\<rfloor> (- 1022);
                ulp = 2 powr (of_int e - 52)
            in of_int (round_half_even (x / ulp)) * ulp))"

text \<open>
  The conversion of an \<open>int\<close> to a float raises \<open>OverflowError\<close> when the rounded
  value is not below \<open>2 ^ 1024\<close>.
\<close>

definition float_of_int :: "int \<Rightarrow> py_error + real" where
  "float_of_int i =
     (let r = round_double (real_of_int i)
      in if \<bar>r\<bar> \<ge> 2 ^ 1024 then Inl (OverflowError ''int too large to convert to float'')
         else Inr r)"

text \<open>The sum of two finite floats is a finite float or an infinity.\<close>

datatype pyfloat = Finite real | PosInf | NegInf

definition float_add :: "real \<Rightarrow> real \<Rightarrow> pyfloat" where
  "float_add a b =
     (let r = round_double (a + b)
      in if r \<ge> 2 ^ 1024 then PosInf
         else if r \<le> - (2 ^ 1024) then NegInf
         else Finite r)"


subsection \<open>InMemoryCache\<close>

text \<open>
  The two dictionaries of the cache. The clock is not part of the state: every operation
  takes the value that its single call of \<open>time.time()\<close> returns as the argument
  \<open>now\<close>.
\<close>

record 'v InMemoryCache =
  cache_data :: "string \<rightharpoonup> 'v"
  ttl_map :: "string \<rightharpoonup> pyfloat"

text \<open>
  \<open>set\<close> returns nothing or raises, and leaves the cache as the second component. The
  value is stored before the expiry is computed, so it is stored also when the conversion
  of \<open>ttl\<close> raises.
\<close>

definition cache_set ::
  "real \<Rightarrow> string \<Rightarrow> 'v \<Rightarrow> int option \<Rightarrow> 'v InMemoryCache
     \<Rightarrow> (py_error + unit) \<times> 'v InMemoryCache" where
  "cache_set now key val ttl self =
     (let self1 = self\<lparr>cache_data := (cache_data self)(key \<mapsto> val)\<rparr>
      in case ttl of
           Some t \<Rightarrow>
             (case float_of_int t of
                Inl e \<Rightarrow> (Inl e, self1)
              | Inr ft \<Rightarrow>
                  (Inr (), self1\<lparr>ttl_map := (ttl_map self1)(key \<mapsto> float_add now ft)\<rparr>))
         | None \<Rightarrow>
             (Inr (),
              if key \<in> dom (ttl_map self1)
                then self1\<lparr>ttl_map := (ttl_map self1)(key := None)\<rparr>
              else self1))"


section \<open>common/types.py: the JSON-RPC response envelope\<close>

datatype rpc_id = IdStr string | IdInt int | IdNone

record JSONRPCError =
  err_code :: int
  err_message :: string
  err_data :: pyval

text \<open>
  \<open>JSONRPCResponse\<close>: \<open>result: Any | None = None\<close> is a \<open>pyval\<close> (with
  \<open>PNone\<close> for None), \<open>error: JSONRPCError | None = None\<close> an option.
\<close>

record JSONRPCResponse =
  resp_jsonrpc :: string
  resp_id :: rpc_id
  resp_result :: pyval
  resp_error :: "JSONRPCError option"

section \<open>common/client/client.py: the unary request\<close>

text \<open>
  What \<open>client.post\<close> does is the environment's choice: it raises an
  \<open>httpx.HTTPError\<close> (connection refused, timeout) without returning a response, or it
  returns a response with a status code and a body, which is JSON or not.
\<close>

record http_response =
  status_code :: int
  json_body :: "pyval option"

datatype post_outcome = PostRaises string | PostReturns http_response

text \<open>The exceptions that the two \<open>except\<close> clauses of \<open>_send_request\<close> tell apart.\<close>

datatype caught = JSONDecodeError string | HTTPError string

text \<open>
  The \<open>try\<close> block: the binding of the local variable \<open>response\<close> when the block is
  left (\<open>None\<close>: never assigned), and the value returned or the exception raised.
  \<open>raise_for_status\<close> raises for every status outside 200..299.
\<close>

definition send_request_try :: "post_outcome \<Rightarrow> http_response option \<times> (caught + pyval)" where
  "send_request_try outcome =
     (case outcome of
        PostRaises msg \<Rightarrow> (None, Inl (HTTPError msg))
      | PostReturns response \<Rightarrow>
          (Some response,
           if \<not> (200 \<le> status_code response \<and> status_code response \<le> 299)
             then Inl (HTTPError ''status'')
           else (case json_body response of
                   None \<Rightarrow> Inl (JSONDecodeError ''body'')
                 | Some v \<Rightarrow> Inr v)))"

text \<open>
  \<open>_send_request\<close>: the handler of \<open>httpx.HTTPError\<close> reads
  \<open>response.status_code\<close>; when \<open>response\<close> was never assigned, that read raises
  \<open>UnboundLocalError\<close>.
\<close>

definition send_request :: "post_outcome \<Rightarrow> py_error + pyval" where
  "send_request outcome =
     (case send_request_try outcome of
        (_, Inr v) \<Rightarrow> Inr v
      | (_, Inl (JSONDecodeError msg)) \<Rightarrow> Inl (A2AClientJSONError msg)
      | (response, Inl (HTTPError msg)) \<Rightarrow>
          (case response of
             None \<Rightarrow> Inl (UnboundLocalError ''response'')
           | Some r \<Rightarrow> Inl (A2AClientHTTPError (status_code r) msg)))"

section \<open>common/types.py: the task data model\<close>

datatype TaskState = SUBMITTED | WORKING | INPUT_REQUIRED | COMPLETED | CANCELLED | FAILED | UNKNOWN

text \<open>The three kinds of part; the last argument of each is its \<open>meta_data\<close>.\<close>

datatype Part =
    TextPart string "pydict option"
  | FilePart FileContent "pydict option"
  | DataPart pydict "pydict option"

record Message =
  msg_role :: string
  msg_parts :: "Part list"
  msg_meta_data :: "pydict option"

record TaskStatus =
  ts_state :: TaskState
  ts_message :: "Message option"
  ts_timestamp :: string

record Artifact =
  art_name :: "string option"
  art_description :: "string option"
  art_parts :: "Part list"
  art_meta_data :: "pydict option"
  art_index :: int
  art_append :: "bool option"
  art_lastChunk :: "bool option"

record Task =
  task_id :: string
  task_sessionId :: "string option"
  task_status :: TaskStatus
  task_artifacts :: "Artifact list option"
  task_history :: "Message list option"
  task_meta_data :: "pydict option"

record TaskStatusUpdateEvent =
  sue_id :: string
  sue_status :: TaskStatus
  sue_final :: bool
  sue_meta_data :: "pydict option"

record TaskArtifactUpdateEvent =
  aue_id :: string
  aue_artifact :: Artifact
  aue_meta_data :: "pydict option"

text \<open>\<open>AuthenticationInfo\<close> allows extra fields (\<open>extra='allow'\<close>): \<open>auth_extra\<close>.\<close>

record AuthenticationInfo =
  auth_schemes :: "string list"
  auth_credentials :: "string option"
  auth_extra :: pydict

record PushNotificationConfig =
  pn_url :: string
  pn_token :: "string option"
  pn_authentication :: "AuthenticationInfo option"

record TaskIdParams =
  tip_id :: string
  tip_meta_data :: "pydict option"

record TaskQueryParams =
  tqp_id :: string
  tqp_meta_data :: "pydict option"
  tqp_historyLength :: "int option"

record TaskSendParams =
  sp_id :: string
  sp_sessionId :: string
  sp_message :: Message
  sp_acceptedOutputModels :: "string list option"
  sp_pushNotification :: "PushNotificationConfig option"
  sp_historyLength :: "int option"
  sp_meta_data :: "pydict option"

record TaskPushNotificationConfig =
  tpn_id :: string
  tpn_pushNotificationConfig :: PushNotificationConfig

record AgentCapabilities =
  cap_streaming :: bool
  cap_pushNotification :: bool
  cap_stateTransitionHistory :: bool

text \<open>
  Of \<open>AgentCard\<close> the fields that the client and the adapter read, and the name.
\<close>

record AgentCard =
  card_name :: string
  card_url :: string
  card_version :: string
  card_capabilities :: "AgentCapabilities option"

subsection \<open>model_dump\<close>

text \<open>
  \<open>model_dump()\<close> turns a model into a dict that has one key for each declared field,
  in the order of declaration, with nested models dumped in the same way.
\<close>

definition dump_opt :: "('a \<Rightarrow> pyval) \<Rightarrow> 'a option \<Rightarrow> pyval" where
  "dump_opt f x = (case x of None \<Rightarrow> PNone | Some v \<Rightarrow> f v)"

definition FileContent_model_dump :: "FileContent \<Rightarrow> pydict" where
  "FileContent_model_dump f =
     [(''name'', dump_opt PStr (fc_name f)), (''mimeType'', dump_opt PStr (fc_mimeType f)),
      (''bytes'', dump_opt PStr (fc_bytes f)), (''uri'', dump_opt PStr (fc_uri f))]"

fun Part_model_dump :: "Part \<Rightarrow> pydict" where
  "Part_model_dump (TextPart t md) =
     [(''type'', PStr ''text''), (''text'', PStr t), (''meta_data'', dump_opt PDict md)]"
| "Part_model_dump (FilePart f md) =
     [(''type'', PStr ''file''), (''file'', PDict (FileContent_model_dump f)),
      (''meta_data'', dump_opt PDict md)]"
| "Part_model_dump (DataPart d md) =
     [(''type'', PStr ''data''), (''data'', PDict d), (''meta_data'', dump_opt PDict md)]"

definition Message_model_dump :: "Message \<Rightarrow> pydict" where
  "Message_model_dump m =
     [(''role'', PStr (msg_role m)),
      (''parts'', PList (map (\<lambda>p. PDict (Part_model_dump p)) (msg_parts m))),
      (''meta_data'', dump_opt PDict (msg_meta_data m))]"

definition AuthenticationInfo_model_dump :: "AuthenticationInfo \<Rightarrow> pydict" where
  "AuthenticationInfo_model_dump a =
     [(''schemes'', PList (map PStr (auth_schemes a))),
      (''credentials'', dump_opt PStr (auth_credentials a))] @ auth_extra a"

definition PushNotificationConfig_model_dump :: "PushNotificationConfig \<Rightarrow> pydict" where
  "PushNotificationConfig_model_dump c =
     [(''url'', PStr (pn_url c)), (''token'', dump_opt PStr (pn_token c)),
      (''authentication'',
         dump_opt (\<lambda>a. PDict (AuthenticationInfo_model_dump a)) (pn_authentication c))]"

definition TaskSendParams_model_dump :: "TaskSendParams \<Rightarrow> pydict" where
  "TaskSendParams_model_dump p =
     [(''id'', PStr (sp_id p)),
      (''sessionId'', PStr (sp_sessionId p)),
      (''message'', PDict (Message_model_dump (sp_message p))),
      (''acceptedOutputModels'', dump_opt (\<lambda>xs. PList (map PStr xs)) (sp_acceptedOutputModels p)),
      (''pushNotification'',
         dump_opt (\<lambda>c. PDict (PushNotificationConfig_model_dump c)) (sp_pushNotification p)),
      (''historyLength'', dump_opt PInt (sp_historyLength p)),
      (''meta_data'', dump_opt PDict (sp_meta_data p))]"

section \<open>common/types.py: the JSON-RPC requests\<close>

text \<open>
  A request with parameters of type \<open>'p\<close>. The seven request classes differ in the literal
  that \<open>method\<close> must equal and in the type of \<open>params\<close>, which is required in each.
\<close>

record 'p JSONRPCRequest =
  req_jsonrpc :: string
  req_id :: rpc_id
  req_method :: string
  req_params :: 'p

text \<open>
  Validation of the keyword arguments \<open>kwargs\<close> of a request class, field by field. A key
  that is absent takes the default of its field; keys that name no field are ignored. The
  library reports all failing fields in one \<open>ValidationError\<close>; the message here names the
  first. \<open>jsonrpc\<close> and \<open>method\<close> are literals. \<open>id: str | int | None\<close> takes a
  string, an integer, None, and a bool as the integer 0 or 1.
\<close>

definition validate_literal :: "string \<Rightarrow> string \<Rightarrow> pydict \<Rightarrow> py_error + string" where
  "validate_literal field lit kwargs =
     (case map_of kwargs field of
        None \<Rightarrow> Inr lit
      | Some (PStr s) \<Rightarrow> if s = lit then Inr s else Inl (ValidationError field)
      | Some _ \<Rightarrow> Inl (ValidationError field))"

definition validate_id :: "string \<Rightarrow> pydict \<Rightarrow> py_error + rpc_id" where
  "validate_id fresh kwargs =
     (case map_of kwargs ''id'' of
        None \<Rightarrow> Inr (IdStr fresh)
      | Some PNone \<Rightarrow> Inr IdNone
      | Some (PStr s) \<Rightarrow> Inr (IdStr s)
      | Some (PInt i) \<Rightarrow> Inr (IdInt i)
      | Some (PBool b) \<Rightarrow> Inr (IdInt (if b then 1 else 0))
      | Some _ \<Rightarrow> Inl (ValidationError ''id''))"

text \<open>
  The validation of the value of \<open>params\<close> against its model is the library's, and is the
  argument \<open>validate_params\<close>. \<open>fresh\<close> is what \<open>uuid4().hex\<close> returns if the default
  of \<open>id\<close> is needed.
\<close>

definition JSONRPCRequest_new ::
  "string \<Rightarrow> (pyval \<Rightarrow> py_error + 'p) \<Rightarrow> string \<Rightarrow> pydict \<Rightarrow> py_error + 'p JSONRPCRequest" where
  "JSONRPCRequest_new method_literal validate_params fresh kwargs =
     (case validate_literal ''jsonrpc'' ''2.0'' kwargs of
        Inl e \<Rightarrow> Inl e
      | Inr j \<Rightarrow>
     (case validate_id fresh kwargs of
        Inl e \<Rightarrow> Inl e
      | Inr i \<Rightarrow>
     (case validate_literal ''method'' method_literal kwargs of
        Inl e \<Rightarrow> Inl e
      | Inr m \<Rightarrow>
     (case map_of kwargs ''params'' of
        None \<Rightarrow> Inl (ValidationError ''params'')
      | Some v \<Rightarrow>
     (case validate_params v of
        Inl e \<Rightarrow> Inl e
      | Inr p \<Rightarrow> Inr \<lparr>req_jsonrpc = j, req_id = i, req_method = m, req_params = p\<rparr>)))))"

text \<open>The library's validators of the parameter models, one for each model.\<close>

record validators =
  v_TaskSendParams :: "pyval \<Rightarrow> py_error + TaskSendParams"
  v_TaskQueryParams :: "pyval \<Rightarrow> py_error + TaskQueryParams"
  v_TaskIdParams :: "pyval \<Rightarrow> py_error + TaskIdParams"
  v_TaskPushNotificationConfig :: "pyval \<Rightarrow> py_error + TaskPushNotificationConfig"

definition SendTaskRequest_new ::
  "validators \<Rightarrow> string \<Rightarrow> pydict \<Rightarrow> py_error + TaskSendParams JSONRPCRequest" where
  "SendTaskRequest_new vs = JSONRPCRequest_new ''tasks/send'' (v_TaskSendParams vs)"

definition SendTaskStreamingRequest_new ::
  "validators \<Rightarrow> string \<Rightarrow> pydict \<Rightarrow> py_error + TaskSendParams JSONRPCRequest" where
  "SendTaskStreamingRequest_new vs = JSONRPCRequest_new ''tasks/sendSubscribe'' (v_TaskSendParams vs)"

definition GetTaskRequest_new ::
  "validators \<Rightarrow> string \<Rightarrow> pydict \<Rightarrow> py_error + TaskQueryParams JSONRPCRequest" where
  "GetTaskRequest_new vs = JSONRPCRequest_new ''tasks/get'' (v_TaskQueryParams vs)"

definition CancelTaskRequest_new ::
  "validators \<Rightarrow> string \<Rightarrow> pydict \<Rightarrow> py_error + TaskIdParams JSONRPCRequest" where
  "CancelTaskRequest_new vs = JSONRPCRequest_new ''tasks/cancel'' (v_TaskIdParams vs)"

definition SetTaskPushNotificationRequest_new ::
  "validators \<Rightarrow> string \<Rightarrow> pydict \<Rightarrow> py_error + TaskPushNotificationConfig JSONRPCRequest" where
  "SetTaskPushNotificationRequest_new vs =
     JSONRPCRequest_new ''tasks/setPushNotification/set'' (v_TaskPushNotificationConfig vs)"

definition GetTaskPushNotificationRequest_new ::
  "validators \<Rightarrow> string \<Rightarrow> pydict \<Rightarrow> py_error + TaskIdParams JSONRPCRequest" where
  "GetTaskPushNotificationRequest_new vs =
     JSONRPCRequest_new ''tasks/pushNotification/get'' (v_TaskIdParams vs)"

definition TaskResubscribeRequest_new ::
  "validators \<Rightarrow> string \<Rightarrow> pydict \<Rightarrow> py_error + TaskIdParams JSONRPCRequest" where
  "TaskResubscribeRequest_new vs = JSONRPCRequest_new ''tasks/reSubscribe'' (v_TaskIdParams vs)"

subsection \<open>A2ARequest: the union discriminated by method\<close>

datatype A2ARequest =
    SendTaskRequest "TaskSendParams JSONRPCRequest"
  | GetTaskRequest "TaskQueryParams JSONRPCRequest"
  | CancelTaskRequest "TaskIdParams JSONRPCRequest"
  | SetTaskPushNotificationRequest "TaskPushNotificationConfig JSONRPCRequest"
  | GetTaskPushNotificationRequest "TaskIdParams JSONRPCRequest"
  | TaskResubscribeRequest "TaskIdParams JSONRPCRequest"
  | SendTaskStreamingRequest "TaskSendParams JSONRPCRequest"

definition tagged :: "('a \<Rightarrow> 'b) \<Rightarrow> py_error + 'a \<Rightarrow> py_error + 'b" where
  "tagged C r = (case r of Inl e \<Rightarrow> Inl e | Inr x \<Rightarrow> Inr (C x))"

text \<open>
  \<open>A2ARequest.validate_python(payload)\<close>: the payload must be a dict; the value under
  \<open>method\<close> selects the member of the union whose literal it equals, and that member
  validates the payload. There is no member for any other tag, and no default member.
\<close>

definition A2ARequest_validate_python :: "validators \<Rightarrow> string \<Rightarrow> pyval \<Rightarrow> py_error + A2ARequest" where
  "A2ARequest_validate_python vs fresh payload =
     (case payload of
        PDict kwargs \<Rightarrow>
          (case map_of kwargs ''method'' of
             None \<Rightarrow> Inl (ValidationError ''union_tag_not_found'')
           | Some (PStr m) \<Rightarrow>
               if m = ''tasks/send''
                 then tagged SendTaskRequest (SendTaskRequest_new vs fresh kwargs)
               else if m = ''tasks/get''
                 then tagged GetTaskRequest (GetTaskRequest_new vs fresh kwargs)
               else if m = ''tasks/cancel''
                 then tagged CancelTaskRequest (CancelTaskRequest_new vs fresh kwargs)
               else if m = ''tasks/setPushNotification/set''
                 then tagged SetTaskPushNotificationRequest
                        (SetTaskPushNotificationRequest_new vs fresh kwargs)
               else if m = ''tasks/pushNotification/get''
                 then tagged GetTaskPushNotificationRequest
                        (GetTaskPushNotificationRequest_new vs fresh kwargs)
               else if m = ''tasks/reSubscribe''
                 then tagged TaskResubscribeRequest (TaskResubscribeRequest_new vs fresh kwargs)
               else if m = ''tasks/sendSubscribe''
                 then tagged SendTaskStreamingRequest (SendTaskStreamingRequest_new vs fresh kwargs)
               else Inl (ValidationError ''union_tag_invalid'')
           | Some _ \<Rightarrow> Inl (ValidationError ''union_tag_invalid''))
      | _ \<Rightarrow> Inl (ValidationError ''model_attributes_type''))"

definition known_methods :: "string list" where
  "known_methods =
     [''tasks/send'', ''tasks/sendSubscribe'', ''tasks/get'', ''tasks/cancel'',
      ''tasks/setPushNotification/set'', ''tasks/pushNotification/get'', ''tasks/reSubscribe'']"

section \<open>common/types.py: the typed responses\<close>

text \<open>
  The response classes that narrow \<open>result\<close> to a model or None: \<open>SendTaskResponse\<close>,
  \<open>GetTaskResponse\<close> and \<open>CancelTaskResponse\<close> (a \<open>Task\<close>), the two push-notification
  responses (a \<open>TaskPushNotificationConfig\<close>) and \<open>SendTaskStreamingResponse\<close> (one of
  the two update events).
\<close>

record 'r typed_response =
  tr_jsonrpc :: string
  tr_id :: rpc_id
  tr_result :: "'r option"
  tr_error :: "JSONRPCError option"

datatype stream_result =
    StatusUpdate TaskStatusUpdateEvent
  | ArtifactUpdate TaskArtifactUpdateEvent

type_synonym SendTaskStreamingResponse = "stream_result typed_response"

definition validate_optional :: "(pyval \<Rightarrow> py_error + 'a) \<Rightarrow> string \<Rightarrow> pydict \<Rightarrow> py_error + 'a option" where
  "validate_optional validate field kwargs =
     (case map_of kwargs field of
        None \<Rightarrow> Inr None
      | Some PNone \<Rightarrow> Inr None
      | Some v \<Rightarrow> (case validate v of Inl e \<Rightarrow> Inl e | Inr x \<Rightarrow> Inr (Some x)))"

text \<open>
  \<open>JSONRPCResponse(**kwargs)\<close>: every field is validated by itself. \<open>jsonrpc\<close> is a
  literal, \<open>id\<close> is a string, an integer or None with \<open>uuid4().hex\<close> (the argument
  \<open>fresh\<close>) as its default, \<open>result\<close> is \<open>Any\<close> and is stored as it is given
  (None when the key is absent), and \<open>error\<close> is None or is validated against
  \<open>JSONRPCError\<close> by the library, which is the argument \<open>validate_error\<close>. The
  class declares no validator that relates \<open>result\<close> and \<open>error\<close>.
\<close>

definition JSONRPCResponse_new ::
  "(pyval \<Rightarrow> py_error + JSONRPCError) \<Rightarrow> string \<Rightarrow> pydict \<Rightarrow> py_error + JSONRPCResponse" where
  "JSONRPCResponse_new validate_error fresh kwargs =
     (case validate_literal ''jsonrpc'' ''2.0'' kwargs of
        Inl e \<Rightarrow> Inl e
      | Inr j \<Rightarrow>
     (case validate_id fresh kwargs of
        Inl e \<Rightarrow> Inl e
      | Inr i \<Rightarrow>
     (case validate_optional validate_error ''error'' kwargs of
        Inl e \<Rightarrow> Inl e
      | Inr err \<Rightarrow>
          Inr \<lparr>resp_jsonrpc = j, resp_id = i,
               resp_result = (case map_of kwargs ''result'' of None \<Rightarrow> PNone | Some r \<Rightarrow> r),
               resp_error = err\<rparr>)))"

text \<open>
  \<open>Response(**body)\<close> for a body that \<open>response.json()\<close> returned: a body that is not
  a dict cannot be unpacked; \<open>validate_result\<close> and \<open>validate_error\<close> are the
  library's validators of the models of \<open>result\<close> and \<open>error\<close>.
\<close>

definition typed_response_new ::
  "(pyval \<Rightarrow> py_error + 'r) \<Rightarrow> (pyval \<Rightarrow> py_error + JSONRPCError) \<Rightarrow> string \<Rightarrow> pyval
     \<Rightarrow> py_error + 'r typed_response" where
  "typed_response_new validate_result validate_error fresh body =
     (case body of
        PDict kwargs \<Rightarrow>
          (case validate_literal ''jsonrpc'' ''2.0'' kwargs of
             Inl e \<Rightarrow> Inl e
           | Inr j \<Rightarrow>
          (case validate_id fresh kwargs of
             Inl e \<Rightarrow> Inl e
           | Inr i \<Rightarrow>
          (case validate_optional validate_result ''result'' kwargs of
             Inl e \<Rightarrow> Inl e
           | Inr r \<Rightarrow>
          (case validate_optional validate_error ''error'' kwargs of
             Inl e \<Rightarrow> Inl e
           | Inr err \<Rightarrow> Inr \<lparr>tr_jsonrpc = j, tr_id = i, tr_result = r, tr_error = err\<rparr>))))
      | _ \<Rightarrow> Inl (TypeError ''argument after ** must be a mapping''))"

record response_validators =
  v_Task :: "pyval \<Rightarrow> py_error + Task"
  v_PushConfig :: "pyval \<Rightarrow> py_error + TaskPushNotificationConfig"
  v_JSONRPCError :: "pyval \<Rightarrow> py_error + JSONRPCError"

section \<open>common/client/client.py: the operations of A2AClient\<close>

text \<open>
  Each unary operation builds its request from \<open>payload\<close>, which are the keyword
  arguments of the request class, posts it with \<open>_send_request\<close> and builds its response
  from the body. The POST takes place only if the request was built.
\<close>

definition unary_call ::
  "(pydict \<Rightarrow> py_error + 'p JSONRPCRequest) \<Rightarrow> (pyval \<Rightarrow> py_error + 'r typed_response)
     \<Rightarrow> pydict \<Rightarrow> post_outcome \<Rightarrow> py_error + 'r typed_response" where
  "unary_call make_request make_response payload outcome =
     (case make_request payload of
        Inl e \<Rightarrow> Inl e
      | Inr request \<Rightarrow>
          (case send_request outcome of
             Inl e \<Rightarrow> Inl e
           | Inr body \<Rightarrow> make_response body))"

definition A2AClient_send_task ::
  "validators \<Rightarrow> response_validators \<Rightarrow> string \<Rightarrow> string \<Rightarrow> pydict \<Rightarrow> post_outcome
     \<Rightarrow> py_error + Task typed_response" where
  "A2AClient_send_task vs rs fresh fresh' =
     unary_call (SendTaskRequest_new vs fresh)
       (typed_response_new (v_Task rs) (v_JSONRPCError rs) fresh')"

definition A2AClient_get_task ::
  "validators \<Rightarrow> response_validators \<Rightarrow> string \<Rightarrow> string \<Rightarrow> pydict \<Rightarrow> post_outcome
     \<Rightarrow> py_error + Task typed_response" where
  "A2AClient_get_task vs rs fresh fresh' =
     unary_call (GetTaskRequest_new vs fresh)
       (typed_response_new (v_Task rs) (v_JSONRPCError rs) fresh')"

definition A2AClient_cancel_task ::
  "validators \<Rightarrow> response_validators \<Rightarrow> string \<Rightarrow> string \<Rightarrow> pydict \<Rightarrow> post_outcome
     \<Rightarrow> py_error + Task typed_response" where
  "A2AClient_cancel_task vs rs fresh fresh' =
     unary_call (CancelTaskRequest_new vs fresh)
       (typed_response_new (v_Task rs) (v_JSONRPCError rs) fresh')"

definition A2AClient_set_task_callback ::
  "validators \<Rightarrow> response_validators \<Rightarrow> string \<Rightarrow> string \<Rightarrow> pydict \<Rightarrow> post_outcome
     \<Rightarrow> py_error + TaskPushNotificationConfig typed_response" where
  "A2AClient_set_task_callback vs rs fresh fresh' =
     unary_call (SetTaskPushNotificationRequest_new vs fresh)
       (typed_response_new (v_PushConfig rs) (v_JSONRPCError rs) fresh')"

definition A2AClient_get_task_callback ::
  "validators \<Rightarrow> response_validators \<Rightarrow> string \<Rightarrow> string \<Rightarrow> pydict \<Rightarrow> post_outcome
     \<Rightarrow> py_error + TaskPushNotificationConfig typed_response" where
  "A2AClient_get_task_callback vs rs fresh fresh' =
     unary_call (GetTaskPushNotificationRequest_new vs fresh)
       (typed_response_new (v_PushConfig rs) (v_JSONRPCError rs) fresh')"

subsection \<open>send_task_streaming\<close>

text \<open>
  What the server-sent-event connection does is the environment's choice: the connection
  fails when it is opened, or it delivers a series of events. For each event,
  \<open>json.loads\<close> and the constructor of \<open>SendTaskStreamingResponse\<close> give a response,
  fail on data that is not JSON, fail on JSON that is not a mapping (it cannot be
  unpacked), or fail on a mapping that is not a response; reading the next event can also
  fail with an \<open>httpx.HTTPError\<close>.
\<close>

datatype sse_event =
    SseResponse SendTaskStreamingResponse
  | SseNotJson string
  | SseNotMapping string
  | SseInvalid string
  | SseTransportError string

datatype connection = ConnectFails string | Connected "sse_event list"

text \<open>
  The generator as the list of what each pull gives: \<open>Inr\<close> a response that is yielded,
  \<open>Inl\<close> an exception that ends it; the end of the list is the end of the iteration.
  The generator yields every event of the connection and does not look at \<open>final\<close>.
\<close>

fun iter_sse :: "sse_event list \<Rightarrow> (py_error + SendTaskStreamingResponse) list" where
  "iter_sse [] = []"
| "iter_sse (SseResponse r # es) = Inr r # iter_sse es"
| "iter_sse (SseNotJson msg # es) = [Inl (A2AClientJSONError msg)]"
| "iter_sse (SseNotMapping msg # es) = [Inl (TypeError msg)]"
| "iter_sse (SseInvalid msg # es) = [Inl (ValidationError msg)]"
| "iter_sse (SseTransportError msg # es) = [Inl (A2AClientHTTPError 400 msg)]"

text \<open>
  The request is built from \<open>payload\<close> when the generator is first pulled, before the
  connection is opened; \<open>connect_sse\<close> is entered outside the \<open>try\<close>, so its failure
  is not wrapped.
\<close>

definition A2AClient_send_task_streaming ::
  "validators \<Rightarrow> string \<Rightarrow> pydict \<Rightarrow> connection
     \<Rightarrow> (py_error + SendTaskStreamingResponse) list" where
  "A2AClient_send_task_streaming vs fresh payload conn =
     (case SendTaskStreamingRequest_new vs fresh payload of
        Inl e \<Rightarrow> [Inl e]
      | Inr request \<Rightarrow>
          (case conn of
             ConnectFails msg \<Rightarrow> [Inl (HttpxError msg)]
           | Connected events \<Rightarrow> iter_sse events))"

section \<open>hosts/multi_agent/remote_agent_connection.py\<close>

text \<open>Truthiness of a \<open>dict | None\<close>: false for \<open>None\<close> and for the empty dict.\<close>

definition truthy_dict :: "pydict option \<Rightarrow> bool" where
  "truthy_dict d = (case d of None \<Rightarrow> False | Some kvs \<Rightarrow> kvs \<noteq> [])"

text \<open>
  \<open>target.update(source)\<close>: every entry of \<open>source\<close>, in order, replaces the value of
  its key in \<open>target\<close> or is appended to it.
\<close>

definition dict_update :: "pydict \<Rightarrow> pydict \<Rightarrow> pydict" where
  "dict_update target source = fold (\<lambda>(k, v). AList.update k v) source target"

text \<open>
  \<open>merge_metadata(target, source)\<close> for two objects that both have the attribute
  \<open>meta_data\<close>: the arguments are the values of the two attributes, the result is the
  value of the target's attribute afterwards.
\<close>

definition merge_metadata :: "pydict option \<Rightarrow> pydict option \<Rightarrow> pydict option" where
  "merge_metadata target_meta_data source_meta_data =
     (if truthy_dict target_meta_data \<and> truthy_dict source_meta_data
        then (case (target_meta_data, source_meta_data) of
                (Some t, Some s) \<Rightarrow> Some (dict_update t s)
              | _ \<Rightarrow> target_meta_data)
      else if truthy_dict source_meta_data
        then source_meta_data
      else target_meta_data)"

text \<open>
  The targets of the adapter. \<open>response.result\<close> is an event, a task or \<open>None\<close>, and
  \<open>None\<close> has no attribute \<open>meta_data\<close>: \<open>merge_metadata\<close> returns at once.
\<close>

definition merge_metadata_message :: "Message \<Rightarrow> Message \<Rightarrow> Message" where
  "merge_metadata_message target source =
     target\<lparr>msg_meta_data := merge_metadata (msg_meta_data target) (msg_meta_data source)\<rparr>"

definition merge_metadata_result :: "stream_result option \<Rightarrow> TaskSendParams \<Rightarrow> stream_result option" where
  "merge_metadata_result target source =
     (case target of
        None \<Rightarrow> None
      | Some (StatusUpdate ev) \<Rightarrow>
          Some (StatusUpdate
                 (ev\<lparr>sue_meta_data := merge_metadata (sue_meta_data ev) (sp_meta_data source)\<rparr>))
      | Some (ArtifactUpdate ev) \<Rightarrow>
          Some (ArtifactUpdate
                 (ev\<lparr>aue_meta_data := merge_metadata (aue_meta_data ev) (sp_meta_data source)\<rparr>)))"

definition merge_metadata_task :: "Task option \<Rightarrow> TaskSendParams \<Rightarrow> Task option" where
  "merge_metadata_task target source =
     (case target of
        None \<Rightarrow> None
      | Some t \<Rightarrow>
          Some (t\<lparr>task_meta_data := merge_metadata (task_meta_data t) (sp_meta_data source)\<rparr>))"

text \<open>
  The lines that follow the merge into a status message \<open>m\<close>: an empty or missing dict
  is replaced by a new one, a \<open>message_id\<close> that is there is stored under
  \<open>last_message_id\<close>, and \<open>message_id\<close> is set to \<open>fresh\<close>, the string of a new
  \<open>uuid4()\<close>.
\<close>

definition assign_message_id :: "string \<Rightarrow> Message \<Rightarrow> Message" where
  "assign_message_id fresh m =
     (let md0 = (case msg_meta_data m of
                   None \<Rightarrow> []
                 | Some d \<Rightarrow> if d = [] then [] else d);
          md1 = (case map_of md0 ''message_id'' of
                   None \<Rightarrow> md0
                 | Some v \<Rightarrow> AList.update ''last_message_id'' v md0);
          md2 = AList.update ''message_id'' (PStr fresh) md1
      in m\<lparr>msg_meta_data := Some md2\<rparr>)"

definition update_status_message :: "TaskSendParams \<Rightarrow> string \<Rightarrow> TaskStatus \<Rightarrow> TaskStatus" where
  "update_status_message request fresh status =
     (case ts_message status of
        None \<Rightarrow> status
      | Some m \<Rightarrow>
          status\<lparr>ts_message :=
            Some (assign_message_id fresh (merge_metadata_message m (sp_message request)))\<rparr>)"

text \<open>
  The body of the loop up to the callback, for one response: the result after the two
  merges, and the number of identifiers drawn so far. \<open>uuids k\<close> is the string of the
  \<open>k\<close>-th \<open>uuid4()\<close> of the call; one is drawn only for a status update that has a
  message. An artifact update and \<open>None\<close> have no attribute \<open>status\<close>.
\<close>

definition process_result ::
  "TaskSendParams \<Rightarrow> (nat \<Rightarrow> string) \<Rightarrow> nat \<Rightarrow> stream_result option \<Rightarrow> stream_result option \<times> nat" where
  "process_result request uuids n result =
     (case merge_metadata_result result request of
        Some (StatusUpdate ev) \<Rightarrow>
          (case ts_message (sue_status ev) of
             None \<Rightarrow> (Some (StatusUpdate ev), n)
           | Some _ \<Rightarrow>
               (Some (StatusUpdate
                       (ev\<lparr>sue_status := update_status_message request (uuids n) (sue_status ev)\<rparr>)),
                Suc n))
      | r \<Rightarrow> (r, n))"

text \<open>\<open>hasattr(response.result, "final") and response.result.final\<close>.\<close>

definition is_final :: "stream_result option \<Rightarrow> bool" where
  "is_final result =
     (case result of Some (StatusUpdate ev) \<Rightarrow> sue_final ev | _ \<Rightarrow> False)"

text \<open>What the callback is called with, in the order of the calls.\<close>

datatype callback_arg = CbTask "Task option" | CbEvent "stream_result option"

text \<open>
  The \<open>async for\<close> loop over what the generator gives: the exception that ended the
  loop if there is one, the number of identifiers drawn, and the calls of the callback.
  \<open>task_callback\<close> says whether a callback was given. After a final event the generator
  is not pulled again.
\<close>

fun consume ::
  "TaskSendParams \<Rightarrow> bool \<Rightarrow> (nat \<Rightarrow> string) \<Rightarrow> nat
     \<Rightarrow> (py_error + SendTaskStreamingResponse) list \<Rightarrow> callback_arg list
     \<Rightarrow> py_error option \<times> nat \<times> callback_arg list" where
  "consume request task_callback uuids n [] calls = (None, n, calls)"
| "consume request task_callback uuids n (Inl e # rest) calls = (Some e, n, calls)"
| "consume request task_callback uuids n (Inr response # rest) calls =
     (case process_result request uuids n (tr_result response) of
        (result, n') \<Rightarrow>
          (let calls' = (if task_callback then calls @ [CbEvent result] else calls)
           in if is_final result then (None, n', calls')
              else consume request task_callback uuids n' rest calls'))"

definition submitted_task :: "string \<Rightarrow> TaskSendParams \<Rightarrow> Task" where
  "submitted_task now request =
     \<lparr>task_id = sp_id request,
      task_sessionId = Some (sp_sessionId request),
      task_status = \<lparr>ts_state = SUBMITTED, ts_message = Some (sp_message request),
                     ts_timestamp = now\<rparr>,
      task_artifacts = None,
      task_history = Some [sp_message request],
      task_meta_data = None\<rparr>"

text \<open>
  The unary branch after the response: the task after the two merges.
\<close>

definition process_task :: "TaskSendParams \<Rightarrow> string \<Rightarrow> Task option \<Rightarrow> Task option" where
  "process_task request fresh result =
     (case merge_metadata_task result request of
        None \<Rightarrow> None
      | Some t \<Rightarrow> Some (t\<lparr>task_status := update_status_message request fresh (task_status t)\<rparr>))"

text \<open>
  \<open>RemoteAgentConnections.send_task\<close>: the value returned or the exception raised, and
  the calls of the callback. The environment is: the library's validators, the strings
  \<open>fresh\<close> and \<open>fresh'\<close> for the default identifiers of the envelopes, the clock
  reading \<open>now\<close>, the identifiers \<open>uuids\<close>, and what the connection \<open>conn\<close> and the
  POST \<open>outcome\<close> do. Both branches hand \<open>request.model_dump()\<close> to the client.
\<close>

definition RemoteAgentConnections_send_task ::
  "validators \<Rightarrow> response_validators \<Rightarrow> string \<Rightarrow> string \<Rightarrow> string \<Rightarrow> (nat \<Rightarrow> string)
     \<Rightarrow> connection \<Rightarrow> post_outcome
     \<Rightarrow> AgentCard \<Rightarrow> TaskSendParams \<Rightarrow> bool
     \<Rightarrow> (py_error + Task option) \<times> callback_arg list" where
  "RemoteAgentConnections_send_task vs rs fresh fresh' now uuids conn outcome agent_card request task_callback =
     (case card_capabilities agent_card of
        None \<Rightarrow> (Inl (AttributeError ''streaming''), [])
      | Some caps \<Rightarrow>
          if cap_streaming caps then
            (let calls0 = (if task_callback then [CbTask (Some (submitted_task now request))] else [])
             in case consume request task_callback uuids 0
                       (A2AClient_send_task_streaming vs fresh (TaskSendParams_model_dump request) conn)
                       calls0 of
                  (Some e, _, calls) \<Rightarrow> (Inl e, calls)
                | (None, _, calls) \<Rightarrow> (Inr None, calls))
          else
            (case A2AClient_send_task vs rs fresh fresh' (TaskSendParams_model_dump request) outcome of
               Inl e \<Rightarrow> (Inl e, [])
             | Inr response \<Rightarrow>
                 (let result = process_task request (uuids 0) (tr_result response)
                  in (Inr result, if task_callback then [CbTask result] else []))))"

section \<open>Reading the calls of the callback\<close>





section \<open>Example values\<close>








text \<open>
  Validators for the examples: the one for \<open>TaskIdParams\<close> takes a dict that has the
  single key \<open>id\<close> with a string, the others take nothing.
\<close>

definition ex_validators :: validators where
  "ex_validators =
     \<lparr>v_TaskSendParams = (\<lambda>v. Inl (ValidationError ''TaskSendParams'')),
      v_TaskQueryParams = (\<lambda>v. Inl (ValidationError ''TaskQueryParams'')),
      v_TaskIdParams =
        (\<lambda>v. case v of
               PDict [(k, PStr i)] \<Rightarrow>
                 if k = ''id'' then Inr \<lparr>tip_id = i, tip_meta_data = None\<rparr>
                 else Inl (ValidationError ''TaskIdParams'')
             | _ \<Rightarrow> Inl (ValidationError ''TaskIdParams'')),
      v_TaskPushNotificationConfig = (\<lambda>v. Inl (ValidationError ''TaskPushNotificationConfig''))\<rparr>"

text \<open>
  A validator of \<open>JSONRPCError\<close> for the examples: it takes a dict that has an integer
  \<open>code\<close> and a string \<open>message\<close>, in this order, and nothing else.
\<close>

definition ex_validate_error :: "pyval \<Rightarrow> py_error + JSONRPCError" where
  "ex_validate_error v =
     (case v of
        PDict [(k, PInt c), (k', PStr m)] \<Rightarrow>
          if k = ''code'' \<and> k' = ''message''
            then Inr \<lparr>err_code = c, err_message = m, err_data = PNone\<rparr>
          else Inl (ValidationError ''error'')
      | _ \<Rightarrow> Inl (ValidationError ''error''))"




section \<open>Properties of are_modalities_compatible\<close>

text \<open>
  C10. \<open>are_modalities_compatible\<close> returns True whenever the client list is None or
  empty, or the server list is None or empty; otherwise it returns True if and only if
  at least one element of the client list is contained in the server list.
\<close>

theorem are_modalities_compatible_spec:
  "(c = None \<or> c = Some [] \<or> s = None \<or> s = Some []
      \<longrightarrow> are_modalities_compatible s c)
   \<and> (c = Some cs \<and> cs \<noteq> [] \<and> s = Some ss \<and> ss \<noteq> []
      \<longrightarrow> are_modalities_compatible s c = (\<exists>x \<in> set cs. x \<in> set ss))"
  by (auto simp: are_modalities_compatible_def list_ex_iff split: option.splits)

theorem are_modalities_compatible_spec_witness:
  "are_modalities_compatible None (Some [''text''])
   \<and> are_modalities_compatible (Some [''text'', ''image'']) (Some [''video'', ''image''])
   \<and> \<not> are_modalities_compatible (Some [''text'']) (Some [''video''])"
  using are_modalities_compatible_spec [of "Some [''text'']" "None" "[''text'']" "[]"]
        are_modalities_compatible_spec [of "Some [''video'', ''image'']" "Some [''text'', ''image'']"
                                          "[''video'', ''image'']" "[''text'', ''image'']"]
        are_modalities_compatible_spec [of "Some [''video'']" "Some [''text'']" "[''video'']" "[''text'']"]
  by simp

section \<open>Properties of FileContent\<close>

text \<open>
  C7, as the code has it. Construction of a File part's content succeeds if and only if
  exactly one of \<open>bytes\<close>, \<open>uri\<close> is a non-empty string: \<open>None\<close> and the empty string
  both count as not provided. The object built holds the fields as given. With neither
  provided and with both provided the construction fails with a validation error.
\<close>

theorem FileContent_new_iff:
  "succeeds (FileContent_new n m b u) = (truthy_str b \<noteq> truthy_str u)
   \<and> (truthy_str b \<noteq> truthy_str u \<longrightarrow>
        FileContent_new n m b u = Inr \<lparr>fc_name = n, fc_mimeType = m, fc_bytes = b, fc_uri = u\<rparr>)
   \<and> (\<not> truthy_str b \<and> \<not> truthy_str u \<longrightarrow>
        FileContent_new n m b u = Inl (ValidationError ''Either bytes or uri must be provided''))
   \<and> (truthy_str b \<and> truthy_str u \<longrightarrow>
        FileContent_new n m b u = Inl (ValidationError ''Only one of bytes or uri must be provided''))"
  by (auto simp: FileContent_new_def check_content_def succeeds_def)

theorem FileContent_new_iff_witness:
  "FileContent_new None None (Some ''aGk='') None
     = Inr \<lparr>fc_name = None, fc_mimeType = None, fc_bytes = Some ''aGk='', fc_uri = None\<rparr>
   \<and> FileContent_new None None (Some ''aGk='') (Some ''http://h/f'')
     = Inl (ValidationError ''Only one of bytes or uri must be provided'')
   \<and> FileContent_new None None (Some '''') None
     = Inl (ValidationError ''Either bytes or uri must be provided'')"
  using FileContent_new_iff [of None None "Some ''aGk=''" None]
        FileContent_new_iff [of None None "Some ''aGk=''" "Some ''http://h/f''"]
        FileContent_new_iff [of None None "Some ''''" None]
  by (simp add: truthy_str_def)

text \<open>
  C7 as stated, with "set" read as "not None", fails: with \<open>bytes\<close> the empty string and
  a \<open>uri\<close>, both fields are set and the construction succeeds.
\<close>

theorem FileContent_both_set_counterexample:
  "Some '''' \<noteq> (None :: string option) \<and> Some ''http://h/f'' \<noteq> (None :: string option)
   \<and> FileContent_new None None (Some '''') (Some ''http://h/f'')
       = Inr \<lparr>fc_name = None, fc_mimeType = None, fc_bytes = Some '''', fc_uri = Some ''http://h/f''\<rparr>"
  by (simp add: FileContent_new_def check_content_def truthy_str_def)

section \<open>Properties of the TTL cache\<close>

text \<open>The rounding to a float of a number whose binary exponent is known.\<close>

lemma round_double_normal:
  assumes "2 ^ e \<le> \<bar>x\<bar>" and "\<bar>x\<bar> < 2 ^ Suc e"
  shows "round_double x = of_int (round_half_even (x / (2 ^ e / 2 ^ 52))) * (2 ^ e / 2 ^ 52)"
proof -
  from assms have pos: "0 < \<bar>x\<bar>" by (smt (verit) zero_less_power)
  then have nz: "x \<noteq> 0" by auto
  have "\<lfloor>log 2 \<bar>x\<bar>\<rfloor> = int e"
    using assms pos by (subst floor_log_eq_powr_iff) (auto simp: powr_realpow powr_add)
  then have m: "max \<lfloor>log 2 \<bar>x\<bar>\<rfloor> (- 1022) = int e" by simp
  have u: "2 powr (real_of_int (int e) - 52) = (2::real) ^ e / 2 ^ 52"
    by (simp add: powr_diff powr_realpow)
  show ?thesis
    unfolding round_double_def Let_def m u using nz by (simp only: if_False)
qed








text \<open>
  A ttl that is too large for a float: \<open>set\<close> raises after it has stored the value,
  and records no expiry.
\<close>

lemma float_of_int_overflow_example:
  "float_of_int (10 ^ 400) = Inl (OverflowError ''int too large to convert to float'')"
proof -
  have "round_double (real_of_int (10 ^ 400)) \<ge> 2 ^ 1024"
    using round_double_normal [of 1328 "real_of_int (10 ^ 400)"]
    by (simp add: round_half_even_def)
  then show ?thesis
    by (simp add: float_of_int_def Let_def del: of_int_power)
qed

lemma cache_set_overflow_example:
  "cache_set now ''k'' (PStr ''v'') (Some (10 ^ 400)) \<lparr>cache_data = Map.empty, ttl_map = Map.empty\<rparr>
     = (Inl (OverflowError ''int too large to convert to float''),
        \<lparr>cache_data = [''k'' \<mapsto> PStr ''v''], ttl_map = Map.empty\<rparr>)"
  using float_of_int_overflow_example
  by (simp add: cache_set_def del: of_int_power power_numeral)

section \<open>Properties of JSONRPCResponse\<close>

text \<open>
  C3, as the code has it. A JSONRPCResponse is constructed from any combination of
  \<open>result\<close> and \<open>error\<close>: whenever \<open>jsonrpc\<close>, \<open>id\<close> and \<open>error\<close> each pass
  the validation of their own field, the construction succeeds whatever \<open>result\<close> is
  and whether or not \<open>error\<close> is set, and the response holds both as given.
\<close>

theorem JSONRPCResponse_new_accepts:
  assumes "validate_literal ''jsonrpc'' ''2.0'' kwargs = Inr j"
    and "validate_id fresh kwargs = Inr i"
    and "validate_optional validate_error ''error'' kwargs = Inr err"
  shows "JSONRPCResponse_new validate_error fresh kwargs =
           Inr \<lparr>resp_jsonrpc = j, resp_id = i,
                resp_result = (case map_of kwargs ''result'' of None \<Rightarrow> PNone | Some r \<Rightarrow> r),
                resp_error = err\<rparr>
         \<and> JSONRPCResponse_new validate_error fresh (AList.update ''result'' r kwargs) =
           Inr \<lparr>resp_jsonrpc = j, resp_id = i, resp_result = r, resp_error = err\<rparr>"
  using assms
  by (simp add: JSONRPCResponse_new_def validate_literal_def validate_id_def
        validate_optional_def update_conv')

theorem JSONRPCResponse_new_accepts_witness:
  "validate_literal ''jsonrpc'' ''2.0'' [(''id'', PInt 7), (''error'', PDict [(''code'', PInt (- 32603)), (''message'', PStr ''Internal error'')])] = Inr ''2.0''
   \<and> validate_id ''ab12'' [(''id'', PInt 7), (''error'', PDict [(''code'', PInt (- 32603)), (''message'', PStr ''Internal error'')])] = Inr (IdInt 7)
   \<and> validate_optional ex_validate_error ''error'' [(''id'', PInt 7), (''error'', PDict [(''code'', PInt (- 32603)), (''message'', PStr ''Internal error'')])]
       = Inr (Some \<lparr>err_code = - 32603, err_message = ''Internal error'', err_data = PNone\<rparr>)
   \<and> JSONRPCResponse_new ex_validate_error ''ab12''
        [(''id'', PInt 7), (''error'', PDict [(''code'', PInt (- 32603)), (''message'', PStr ''Internal error'')])]
       = Inr \<lparr>resp_jsonrpc = ''2.0'', resp_id = IdInt 7, resp_result = PNone,
              resp_error = Some \<lparr>err_code = - 32603, err_message = ''Internal error'', err_data = PNone\<rparr>\<rparr>
   \<and> JSONRPCResponse_new ex_validate_error ''ab12''
        (AList.update ''result'' (PStr ''done'')
          [(''id'', PInt 7), (''error'', PDict [(''code'', PInt (- 32603)), (''message'', PStr ''Internal error'')])])
       = Inr \<lparr>resp_jsonrpc = ''2.0'', resp_id = IdInt 7, resp_result = PStr ''done'',
              resp_error = Some \<lparr>err_code = - 32603, err_message = ''Internal error'', err_data = PNone\<rparr>\<rparr>"
proof -
  let ?kw = "[(''id'', PInt 7), (''error'', PDict [(''code'', PInt (- 32603)), (''message'', PStr ''Internal error'')])]"
  have h1: "validate_literal ''jsonrpc'' ''2.0'' ?kw = Inr ''2.0''"
    by (simp add: validate_literal_def)
  have h2: "validate_id ''ab12'' ?kw = Inr (IdInt 7)"
    by (simp add: validate_id_def)
  have h3: "validate_optional ex_validate_error ''error'' ?kw
       = Inr (Some \<lparr>err_code = - 32603, err_message = ''Internal error'', err_data = PNone\<rparr>)"
    by (simp add: validate_optional_def ex_validate_error_def)
  from JSONRPCResponse_new_accepts [OF h1 h2 h3, of "PStr ''done''"] h1 h2 h3
  show ?thesis by simp
qed

text \<open>
  C3 as stated fails: a response with neither \<open>result\<close> nor \<open>error\<close> is constructed,
  and so is a response with both.
\<close>

theorem JSONRPCResponse_neither_or_both_counterexample:
  "JSONRPCResponse_new ex_validate_error ''ab12'' [(''id'', PInt 1)] =
      Inr \<lparr>resp_jsonrpc = ''2.0'', resp_id = IdInt 1, resp_result = PNone, resp_error = None\<rparr>
   \<and> JSONRPCResponse_new ex_validate_error ''ab12''
        [(''id'', PInt 1), (''result'', PStr ''done''),
         (''error'', PDict [(''code'', PInt (- 32603)), (''message'', PStr ''Internal error'')])] =
      Inr \<lparr>resp_jsonrpc = ''2.0'', resp_id = IdInt 1, resp_result = PStr ''done'',
           resp_error = Some \<lparr>err_code = - 32603, err_message = ''Internal error'', err_data = PNone\<rparr>\<rparr>"
  by (simp add: JSONRPCResponse_new_def validate_literal_def validate_id_def
        validate_optional_def ex_validate_error_def)

section \<open>Properties of merge_metadata\<close>

lemma map_of_dict_update:
  "distinct (map fst s) \<Longrightarrow>
   map_of (dict_update t s) k = (case map_of s k of Some v \<Rightarrow> Some v | None \<Rightarrow> map_of t k)"
proof (induction s arbitrary: t)
  case Nil
  then show ?case by (simp add: dict_update_def)
next
  case (Cons p s)
  obtain k' v' where p: "p = (k', v')" by (cases p)
  from Cons.prems p have notin: "map_of s k' = None" and dist: "distinct (map fst s)"
    by (auto simp: map_of_eq_None_iff)
  have "map_of (dict_update t (p # s)) k = map_of (dict_update (AList.update k' v' t) s) k"
    by (simp add: dict_update_def p)
  also have "\<dots> = (case map_of s k of Some v \<Rightarrow> Some v | None \<Rightarrow> map_of (AList.update k' v' t) k)"
    using Cons.IH [OF dist] .
  finally show ?case
    using notin by (auto simp: p update_conv' split: option.splits)
qed

text \<open>
  C1, as the code has it. When the request's metadata is not empty, every key of it is in
  the target after the merge, and for a key that is in both, the target holds the
  request's value afterwards: the request's value replaces the target's. The keys of the
  target that the request does not have keep their values.
\<close>

theorem merge_metadata_request_wins:
  assumes "s \<noteq> []" and "distinct (map fst s)"
  shows "\<exists>r. merge_metadata t (Some s) = Some r
           \<and> (\<forall>k. map_of r k =
                 (case map_of s k of
                    Some v \<Rightarrow> Some v
                  | None \<Rightarrow> (case t of None \<Rightarrow> None | Some d \<Rightarrow> map_of d k)))"
proof (cases "truthy_dict t")
  case True
  then obtain d where "t = Some d" "d \<noteq> []"
    by (auto simp: truthy_dict_def split: option.splits)
  then show ?thesis
    using assms by (auto simp: merge_metadata_def truthy_dict_def map_of_dict_update split: option.splits)
next
  case False
  then have "t = None \<or> t = Some []"
    by (auto simp: truthy_dict_def split: option.splits)
  then show ?thesis
    using assms by (auto simp: merge_metadata_def truthy_dict_def split: option.splits)
qed

theorem merge_metadata_request_wins_witness:
  "[(''conversation_id'', PStr ''c-request''), (''hop'', PInt 1)] \<noteq> []
   \<and> distinct (map fst [(''conversation_id'', PStr ''c-request''), (''hop'', PInt 1)])
   \<and> merge_metadata (Some [(''conversation_id'', PStr ''c-server''), (''trace'', PStr ''t'')])
                  (Some [(''conversation_id'', PStr ''c-request''), (''hop'', PInt 1)])
     = Some [(''conversation_id'', PStr ''c-request''), (''trace'', PStr ''t''), (''hop'', PInt 1)]"
  using merge_metadata_request_wins
          [of "[(''conversation_id'', PStr ''c-request''), (''hop'', PInt 1)]"
              "Some [(''conversation_id'', PStr ''c-server''), (''trace'', PStr ''t'')]"]
  by (simp add: merge_metadata_def truthy_dict_def dict_update_def)

text \<open>
  C1 as stated fails: the target holds \<open>c-server\<close> under \<open>conversation_id\<close>, the
  request \<open>c-request\<close>, and after the merge the target holds the request's value.
\<close>

theorem merge_metadata_overwrites_counterexample:
  "merge_metadata (Some [(''conversation_id'', PStr ''c-server'')])
                  (Some [(''conversation_id'', PStr ''c-request'')])
     = Some [(''conversation_id'', PStr ''c-request'')]"
  by (simp add: merge_metadata_def truthy_dict_def dict_update_def)

section \<open>Properties of the loop over the status updates\<close>










section \<open>Properties of the streaming path\<close>

text \<open>
  The loop itself stops at the first final event: what follows it on the connection has
  no effect on the result.
\<close>

lemma is_final_process_result:
  "is_final (fst (process_result request uuids n r)) = is_final r"
  by (auto simp: process_result_def merge_metadata_result_def is_final_def
           split: option.splits stream_result.splits)

lemma consume_stops_at_final:
  assumes "\<forall>r \<in> set pre. \<not> is_final (tr_result r)" and "is_final (tr_result f)"
  shows "consume request cb uuids n (map Inr pre @ Inr f # rest) calls
         = consume request cb uuids n (map Inr pre @ [Inr f]) calls"
  using assms
proof (induction pre arbitrary: n calls)
  case Nil
  then show ?case
    using is_final_process_result [of request uuids n "tr_result f"]
    by (auto simp: Let_def split: prod.splits)
next
  case (Cons r pre)
  then show ?case
    using is_final_process_result [of request uuids n "tr_result r"]
    by (auto simp: Let_def split: prod.splits)
qed

text \<open>
  Given a callback, the loop calls it once for each event up to and including the first
  final one, and ends without an exception.
\<close>

lemma consume_delivers_up_to_final:
  assumes "\<forall>r \<in> set pre. \<not> is_final (tr_result r)" and "is_final (tr_result f)"
  shows "\<exists>n' delivered.
           consume request True uuids n (map Inr pre @ Inr f # rest) calls
             = (None, n', calls @ map CbEvent delivered)
           \<and> length delivered = Suc (length pre)"
  using assms
proof (induction pre arbitrary: n calls)
  case Nil
  obtain res n1 where p: "process_result request uuids n (tr_result f) = (res, n1)"
    by (cases "process_result request uuids n (tr_result f)")
  with Nil is_final_process_result [of request uuids n "tr_result f"]
  have "consume request True uuids n (map Inr [] @ Inr f # rest) calls
          = (None, n1, calls @ map CbEvent [res])"
    by (simp add: Let_def)
  then show ?case by (metis length_Cons list.size(3))
next
  case (Cons r pre)
  obtain res n1 where p: "process_result request uuids n (tr_result r) = (res, n1)"
    by (cases "process_result request uuids n (tr_result r)")
  from Cons.prems have nf: "\<not> is_final (tr_result r)" and rest': "\<forall>r \<in> set pre. \<not> is_final (tr_result r)"
    by simp_all
  from Cons.IH [OF rest' Cons.prems(2), of n1 "calls @ [CbEvent res]"]
  obtain n' delivered where
    d: "consume request True uuids n1 (map Inr pre @ Inr f # rest) (calls @ [CbEvent res])
          = (None, n', (calls @ [CbEvent res]) @ map CbEvent delivered)"
       "length delivered = Suc (length pre)"
    by blast
  from p nf is_final_process_result [of request uuids n "tr_result r"] d(1)
  have "consume request True uuids n (map Inr (r # pre) @ Inr f # rest) calls
          = (None, n', calls @ map CbEvent (res # delivered))"
    by (simp add: Let_def)
  with d(2) show ?case by (metis length_Cons)
qed

text \<open>
  The dict that the adapter hands to the client has the keys of \<open>TaskSendParams\<close> and
  no key \<open>params\<close>, so the request class rejects it.
\<close>

lemma dump_has_no_params: "map_of (TaskSendParams_model_dump request) ''params'' = None"
  by (simp add: TaskSendParams_model_dump_def)

lemma streaming_request_from_dump:
  "SendTaskStreamingRequest_new vs fresh (TaskSendParams_model_dump request) = Inl (ValidationError ''params'')"
  by (simp add: SendTaskStreamingRequest_new_def JSONRPCRequest_new_def validate_literal_def
        validate_id_def TaskSendParams_model_dump_def)

text \<open>
  C5 on the code. For an agent that advertises streaming, \<open>send_task\<close> raises the
  validation error of the request on the first pull of the generator, whatever the
  connection would deliver: the callback has been given the synthesized submitted task
  and is given no event, also when the series of events ends with a final one.
\<close>

theorem send_task_streaming_delivers_no_event:
  "RemoteAgentConnections_send_task vs rs fresh fresh' now uuids conn outcome
     \<lparr>card_name = nm, card_url = url, card_version = ver,
      card_capabilities = Some \<lparr>cap_streaming = True, cap_pushNotification = pn,
                                cap_stateTransitionHistory = h\<rparr>\<rparr>
     request task_callback
   = (Inl (ValidationError ''params''),
      if task_callback then [CbTask (Some (submitted_task now request))] else [])"
  by (simp add: RemoteAgentConnections_send_task_def A2AClient_send_task_streaming_def
        streaming_request_from_dump)

section \<open>Properties of the unary request\<close>

lemma send_request_bad_status:
  "\<not> (200 \<le> status_code r \<and> status_code r \<le> 299) \<Longrightarrow>
   send_request (PostReturns r) = Inl (A2AClientHTTPError (status_code r) ''status'')"
  by (simp add: send_request_def send_request_try_def)

text \<open>
  C6 on the code. When the POST raises without a response (a transport failure),
  \<open>_send_request\<close> raises \<open>UnboundLocalError\<close>, not the client's HTTP error, and so
  does each of the five unary operations whose request was built.
\<close>

theorem send_request_transport_failure:
  "send_request (PostRaises msg) = Inl (UnboundLocalError ''response'')
   \<and> A2AClient_send_task vs rs fresh fresh' payload (PostRaises msg)
       = (case SendTaskRequest_new vs fresh payload of
            Inl e \<Rightarrow> Inl e | Inr request \<Rightarrow> Inl (UnboundLocalError ''response''))
   \<and> A2AClient_get_task vs rs fresh fresh' payload (PostRaises msg)
       = (case GetTaskRequest_new vs fresh payload of
            Inl e \<Rightarrow> Inl e | Inr request \<Rightarrow> Inl (UnboundLocalError ''response''))
   \<and> A2AClient_cancel_task vs rs fresh fresh' payload (PostRaises msg)
       = (case CancelTaskRequest_new vs fresh payload of
            Inl e \<Rightarrow> Inl e | Inr request \<Rightarrow> Inl (UnboundLocalError ''response''))
   \<and> A2AClient_set_task_callback vs rs fresh fresh' payload (PostRaises msg)
       = (case SetTaskPushNotificationRequest_new vs fresh payload of
            Inl e \<Rightarrow> Inl e | Inr request \<Rightarrow> Inl (UnboundLocalError ''response''))
   \<and> A2AClient_get_task_callback vs rs fresh fresh' payload (PostRaises msg)
       = (case GetTaskPushNotificationRequest_new vs fresh payload of
            Inl e \<Rightarrow> Inl e | Inr request \<Rightarrow> Inl (UnboundLocalError ''response''))"
  by (simp add: send_request_def send_request_try_def unary_call_def A2AClient_send_task_def
        A2AClient_get_task_def A2AClient_cancel_task_def A2AClient_set_task_callback_def
        A2AClient_get_task_callback_def split: sum.splits)

lemma cancel_task_connection_refused_example:
  "A2AClient_cancel_task ex_validators rs ''f1'' ''f2''
     [(''params'', PDict [(''id'', PStr ''t1'')])] (PostRaises ''connection refused'')
   = Inl (UnboundLocalError ''response'')"
  by (simp add: A2AClient_cancel_task_def unary_call_def CancelTaskRequest_new_def
        JSONRPCRequest_new_def validate_literal_def validate_id_def ex_validators_def
        send_request_def send_request_try_def)

section \<open>Properties of the request union\<close>

text \<open>
  C8. For every payload whose \<open>method\<close> is a string that is not one of the seven known
  methods, decoding with the union fails with an error, whatever the other fields are;
  no request is produced.
\<close>

theorem A2ARequest_unknown_method_fails:
  assumes "map_of kwargs ''method'' = Some (PStr m)" and "m \<notin> set known_methods"
  shows "A2ARequest_validate_python vs fresh (PDict kwargs) = Inl (ValidationError ''union_tag_invalid'')"
  using assms by (simp add: A2ARequest_validate_python_def known_methods_def)

theorem A2ARequest_unknown_method_fails_witness:
  "map_of [(''jsonrpc'', PStr ''2.0''), (''id'', PInt 1), (''method'', PStr ''tasks/delete''),
           (''params'', PDict [(''id'', PStr ''t1'')])] ''method'' = Some (PStr ''tasks/delete'')
   \<and> ''tasks/delete'' \<notin> set known_methods
   \<and> A2ARequest_validate_python ex_validators ''f1''
        (PDict [(''jsonrpc'', PStr ''2.0''), (''id'', PInt 1), (''method'', PStr ''tasks/delete''),
                (''params'', PDict [(''id'', PStr ''t1'')])])
      = Inl (ValidationError ''union_tag_invalid'')"
proof -
  have h1: "map_of [(''jsonrpc'', PStr ''2.0''), (''id'', PInt 1), (''method'', PStr ''tasks/delete''),
           (''params'', PDict [(''id'', PStr ''t1'')])] ''method'' = Some (PStr ''tasks/delete'')"
    by simp
  have h2: "''tasks/delete'' \<notin> set known_methods" by (simp add: known_methods_def)
  from A2ARequest_unknown_method_fails [OF h1 h2, of ex_validators "''f1''"] h1 h2
  show ?thesis by simp
qed

lemma A2ARequest_known_method_example:
  "A2ARequest_validate_python ex_validators ''f1''
        (PDict [(''jsonrpc'', PStr ''2.0''), (''id'', PInt 1), (''method'', PStr ''tasks/cancel''),
                (''params'', PDict [(''id'', PStr ''t1'')])])
      = Inr (CancelTaskRequest \<lparr>req_jsonrpc = ''2.0'', req_id = IdInt 1, req_method = ''tasks/cancel'',
                                 req_params = \<lparr>tip_id = ''t1'', tip_meta_data = None\<rparr>\<rparr>)"
  by (simp add: A2ARequest_validate_python_def CancelTaskRequest_new_def JSONRPCRequest_new_def
        validate_literal_def validate_id_def tagged_def ex_validators_def)

end
